theory Spec2Isabelle
  imports Main
begin

section \<open>Field descriptors: \<^verbatim>\<open>get_field_info\<close> of python/taichi/ui/utils.py\<close>

text \<open>
  The compute backends of the native core (\<^verbatim>\<open>_ti_core.cuda\<close>, \<^verbatim>\<open>_ti_core.x64\<close>, ...).
  The source compares the active backend with four members of the enumeration;
  \<open>other_arch\<close> stands for every other member, by its name.
\<close>

datatype Arch = cuda | x64 | arm64 | vulkan | other_arch string

text \<open>\<^verbatim>\<open>_ti_core.FieldSource\<close> and \<^verbatim>\<open>_ti_core.FieldType\<close>, with the members the source uses.\<close>

datatype FieldSource = TaichiCuda | TaichiX64 | TaichiVulkan

datatype FieldType = Scalar | Matrix

text \<open>
  Python exceptions as values. Every class below is a subclass of \<^verbatim>\<open>Exception\<close>;
  \<open>Exception msg\<close> is an instance of the base class itself.
\<close>

datatype error =
    Exception string
  | GGUINotAvailableException string
  | ImportError
  | AssertionError
  | OSError
  | ValueError

text \<open>
  Modelled from the spec: the field classes, which are declared in \<^verbatim>\<open>taichi.lang\<close> and
  not in this module. A field has a shape, an element type, a handle into its storage
  tree and an optional per-element sub-shape of rows and columns, present when its
  elements are small matrices. These are what \<^verbatim>\<open>get_field_info\<close> reads: \<^verbatim>\<open>field.shape\<close>,
  \<^verbatim>\<open>field.dtype\<close>, \<^verbatim>\<open>field.snode.ptr\<close> and, on a matrix field only, the attributes
  \<^verbatim>\<open>n\<close> (rows) and \<^verbatim>\<open>m\<close> (columns), which come together and are one optional pair here.
  The element type and the storage node handle are opaque.
\<close>

record ('dtype, 'snode) Field =
  field_shape :: "int list"
  field_dtype :: 'dtype
  field_snode_ptr :: 'snode
  field_n_m :: "(int \<times> int) option"

text \<open>\<^verbatim>\<open>hasattr(field, 'n')\<close>.\<close>

definition hasattr_n :: "('dtype, 'snode) Field \<Rightarrow> bool" where
  "hasattr_n field = (field_n_m field \<noteq> None)"

text \<open>\<^verbatim>\<open>_ti_core.FieldInfo\<close>: the attributes \<^verbatim>\<open>get_field_info\<close> assigns.\<close>

record ('dtype, 'snode) FieldInfo =
  valid :: bool
  field_source :: FieldSource
  shape :: "int list"
  dtype :: 'dtype
  snode :: 'snode
  field_type :: FieldType
  matrix_rows :: int
  matrix_cols :: int

text \<open>
  The \<^verbatim>\<open>if\<close>/\<^verbatim>\<open>elif\<close> chain over \<^verbatim>\<open>default_cfg().arch\<close>, in the order of the source,
  with the \<^verbatim>\<open>raise\<close> of its \<^verbatim>\<open>else\<close> branch.
\<close>

definition set_field_source ::
  "Arch \<Rightarrow> ('dtype, 'snode) FieldInfo \<Rightarrow> error + ('dtype, 'snode) FieldInfo" where
  "set_field_source arch info =
     (if arch = cuda then Inr (info\<lparr>field_source := TaichiCuda\<rparr>)
      else if arch = x64 then Inr (info\<lparr>field_source := TaichiX64\<rparr>)
      else if arch = arm64 then Inr (info\<lparr>field_source := TaichiX64\<rparr>)
      else if arch = vulkan then Inr (info\<lparr>field_source := TaichiVulkan\<rparr>)
      else Inl (Exception ''unsupported taichi backend''))"

text \<open>The \<^verbatim>\<open>hasattr(field, 'n')\<close> branch that closes the function.\<close>

definition set_field_type ::
  "('dtype, 'snode) Field \<Rightarrow> ('dtype, 'snode) FieldInfo \<Rightarrow> ('dtype, 'snode) FieldInfo" where
  "set_field_type field info =
     (case field_n_m field of
        Some (n, m) \<Rightarrow> info\<lparr>field_type := Matrix, matrix_rows := n, matrix_cols := m\<rparr>
      | None \<Rightarrow> info\<lparr>field_type := Scalar, matrix_rows := 1, matrix_cols := 1\<rparr>)"

text \<open>
  \<^verbatim>\<open>get_field_info(field)\<close>. The first argument is the descriptor that
  \<^verbatim>\<open>_ti_core.FieldInfo()\<close> constructs (the constructor belongs to the native core), the
  second is \<^verbatim>\<open>default_cfg().arch\<close>, and \<open>None\<close> is Python's \<^verbatim>\<open>None\<close>. The assignments to
  \<^verbatim>\<open>info\<close> are record updates in the order of the source; the function writes to nothing
  else.
\<close>

definition get_field_info ::
  "('dtype, 'snode) FieldInfo \<Rightarrow> Arch \<Rightarrow> ('dtype, 'snode) Field option
     \<Rightarrow> error + ('dtype, 'snode) FieldInfo" where
  "get_field_info info0 arch field_opt =
     (case field_opt of
        None \<Rightarrow> Inr (info0\<lparr>valid := False\<rparr>)
      | Some field \<Rightarrow>
          (case set_field_source arch (info0\<lparr>valid := True\<rparr>) of
             Inl e \<Rightarrow> Inl e
           | Inr info1 \<Rightarrow>
               Inr (set_field_type field
                      (info1\<lparr>shape := map (\<lambda>n. n) (field_shape field),
                             dtype := field_dtype field,
                             snode := field_snode_ptr field\<rparr>))))"




section \<open>GGUI availability: \<^verbatim>\<open>check_ggui_availability\<close> of python/taichi/ui/utils.py\<close>

subsection \<open>The string operations of Python the probes use\<close>

text \<open>
  Strings are byte strings here, so the operations are those of Python on ASCII text.
  \<open>isspace\<close> is the whitespace at which \<^verbatim>\<open>str.split()\<close> splits, \<open>isdigit\<close> the class
  \<^verbatim>\<open>\d\<close>.
\<close>

definition isspace :: "char \<Rightarrow> bool" where
  "isspace c = (c \<in> set [CHR 0x09, CHR 0x0A, CHR 0x0B, CHR 0x0C, CHR 0x0D,
                           CHR 0x1C, CHR 0x1D, CHR 0x1E, CHR 0x1F, CHR 0x20])"

definition isdigit :: "char \<Rightarrow> bool" where
  "isdigit c = (c \<in> set ''0123456789'')"

text \<open>\<^verbatim>\<open>content.split()\<close>: the words between runs of whitespace (\<open>w\<close> is the word being read).\<close>

fun str_split :: "string \<Rightarrow> string \<Rightarrow> string list" where
  "str_split w [] = (if w = [] then [] else [w])"
| "str_split w (c # cs) =
     (if isspace c then (if w = [] then str_split [] cs else w # str_split [] cs)
      else str_split (w @ [c]) cs)"

text \<open>\<^verbatim>\<open>s.split('.')\<close>: the pieces between separators, empty pieces kept.\<close>

fun str_split_sep :: "char \<Rightarrow> string \<Rightarrow> string \<Rightarrow> string list" where
  "str_split_sep sep w [] = [w]"
| "str_split_sep sep w (c # cs) =
     (if c = sep then w # str_split_sep sep [] cs else str_split_sep sep (w @ [c]) cs)"

text \<open>\<^verbatim>\<open>sub in s\<close> on strings.\<close>

fun str_in :: "string \<Rightarrow> string \<Rightarrow> bool" where
  "str_in sub [] = (sub = [])"
| "str_in sub (c # cs) = (take (length sub) (c # cs) = sub \<or> str_in sub cs)"

text \<open>
  One match of the pattern \<^verbatim>\<open>\d+\.\d+\<close> at the head of a string: the matched text and
  what follows it. Both digit runs are greedy, and giving digits back never helps.
\<close>

definition match_version :: "string \<Rightarrow> (string \<times> string) option" where
  "match_version s =
     (let ds = takeWhile isdigit s in
      if ds = [] then None
      else (case dropWhile isdigit s of
              c # r \<Rightarrow>
                if c = CHR ''.'' \<and> takeWhile isdigit r \<noteq> []
                then Some (ds @ [c] @ takeWhile isdigit r, dropWhile isdigit r)
                else None
            | [] \<Rightarrow> None))"

lemma match_version_shorter:
  "match_version s = Some (m, r) \<Longrightarrow> length r < length s"
proof -
  assume h: "match_version s = Some (m, r)"
  then obtain c r' where d: "dropWhile isdigit s = c # r'" and r: "r = dropWhile isdigit r'"
    by (auto simp: match_version_def Let_def split: if_splits list.splits)
  have "length r \<le> length r'" unfolding r by (rule length_dropWhile_le)
  also have "length r' < length (dropWhile isdigit s)" by (simp add: d)
  also have "\<dots> \<le> length s" by (rule length_dropWhile_le)
  finally show ?thesis .
qed

text \<open>\<^verbatim>\<open>re.findall(r'\d+\.\d+', s)\<close>: the matches from left to right, without overlap.\<close>

function re_findall_version :: "string \<Rightarrow> string list" where
  "re_findall_version [] = []"
| "re_findall_version (c # cs) =
     (case match_version (c # cs) of
        Some (m, r) \<Rightarrow> m # re_findall_version r
      | None \<Rightarrow> re_findall_version cs)"
  by pat_completeness auto
termination
  by (relation "measure length") (auto dest: match_version_shorter)

text \<open>
  \<^verbatim>\<open>int(v)\<close> on a string: whitespace around, an optional sign, then decimal digits in
  which single underscores may separate digits; anything else is a \<^verbatim>\<open>ValueError\<close>. The
  whitespace \<^verbatim>\<open>int\<close> skips in an ASCII string is that of C (tab to carriage return, and
  the space), a smaller set than the one of \<^verbatim>\<open>str.split()\<close>; and a string of more than
  4300 digits (the default of \<^verbatim>\<open>sys.set_int_max_str_digits\<close>) is a \<^verbatim>\<open>ValueError\<close> too.
\<close>

definition isspace_int :: "char \<Rightarrow> bool" where
  "isspace_int c = (c \<in> set [CHR 0x09, CHR 0x0A, CHR 0x0B, CHR 0x0C, CHR 0x0D, CHR 0x20])"

definition int_max_str_digits :: nat where
  "int_max_str_digits = 4300"

definition digit_value :: "char \<Rightarrow> int" where
  "digit_value c = int (of_char c) - 48"

fun digits_int :: "int \<Rightarrow> string \<Rightarrow> int option" where
  "digits_int acc [] = Some acc"
| "digits_int acc [c] = (if isdigit c then Some (10 * acc + digit_value c) else None)"
| "digits_int acc (c # d # cs) =
     (if isdigit c then digits_int (10 * acc + digit_value c) (d # cs)
      else if c = CHR ''_'' \<and> isdigit d then digits_int acc (d # cs)
      else None)"

definition int_of_str :: "string \<Rightarrow> error + int" where
  "int_of_str s =
     (let t = rev (dropWhile isspace_int (rev (dropWhile isspace_int s)));
          (neg, u) = (case t of
                        c # r \<Rightarrow> if c = CHR ''-'' then (True, r)
                                 else if c = CHR ''+'' then (False, r) else (False, t)
                      | [] \<Rightarrow> (False, t))
      in case u of
           [] \<Rightarrow> Inl ValueError
         | c # _ \<Rightarrow>
             if isdigit c \<and> length (filter isdigit u) \<le> int_max_str_digits
             then (case digits_int 0 u of
                     Some v \<Rightarrow> Inr (if neg then - v else v)
                   | None \<Rightarrow> Inl ValueError)
             else Inl ValueError)"

text \<open>\<^verbatim>\<open>tuple([int(v) for v in vs])\<close>: the first failing conversion raises.\<close>

fun int_tuple :: "string list \<Rightarrow> error + int list" where
  "int_tuple [] = Inr []"
| "int_tuple (v # vs) =
     (case int_of_str v of
        Inl e \<Rightarrow> Inl e
      | Inr i \<Rightarrow> (case int_tuple vs of Inl e \<Rightarrow> Inl e | Inr is \<Rightarrow> Inr (i # is)))"

text \<open>\<^verbatim>\<open><\<close> on tuples of integers: lexicographic, a proper prefix is smaller.\<close>

fun tuple_less :: "int list \<Rightarrow> int list \<Rightarrow> bool" where
  "tuple_less [] [] = False"
| "tuple_less [] (y # ys) = True"
| "tuple_less (x # xs) [] = False"
| "tuple_less (x # xs) (y # ys) = (if x = y then tuple_less xs ys else x < y)"

subsection \<open>The probes and the check\<close>

text \<open>
  What the host answers when \<^verbatim>\<open>check_ggui_availability\<close> asks: the flag of the native
  core, whether \<^verbatim>\<open>import taichi\<close> raises, what the body of \<^verbatim>\<open>try_get_wheel_tag\<close> yields
  (an exception, or \<^verbatim>\<open>meta.get('Tag')\<close>, which may be \<^verbatim>\<open>None\<close>), \<^verbatim>\<open>platform.system()\<close>,
  what reading \<^verbatim>\<open>/proc/self/maps\<close> yields, and what \<^verbatim>\<open>import pip\<close> yields (an exception,
  or \<^verbatim>\<open>pip.__version__\<close>).
\<close>

record environment =
  GGUI_AVAILABLE :: bool
  import_taichi :: "error option"
  wheel_tag_lookup :: "error + string option"
  platform_system :: string
  proc_self_maps :: "error + string"
  import_pip :: "error + string"

text \<open>\<^verbatim>\<open>try_get_wheel_tag\<close>: every exception of its body becomes \<^verbatim>\<open>None\<close>.\<close>

definition try_get_wheel_tag :: "error + string option \<Rightarrow> string option" where
  "try_get_wheel_tag lookup = (case lookup of Inl e \<Rightarrow> None | Inr tag \<Rightarrow> tag)"

text \<open>
  \<^verbatim>\<open>try_get_loaded_libc_version\<close>: the assertion on the platform, the read of the maps
  file outside the \<^verbatim>\<open>try\<close>, then the first word that contains \<^verbatim>\<open>libc-\<close> (none:
  \<^verbatim>\<open>StopIteration\<close>, caught, \<^verbatim>\<open>None\<close>) and the first version number in it.
\<close>

definition try_get_loaded_libc_version ::
  "string \<Rightarrow> error + string \<Rightarrow> error + int list option" where
  "try_get_loaded_libc_version system maps =
     (if system \<noteq> ''Linux'' then Inl AssertionError
      else case maps of
        Inl e \<Rightarrow> Inl e
      | Inr content \<Rightarrow>
          (case find (\<lambda>v. str_in ''libc-'' v) (str_split [] content) of
             None \<Rightarrow> Inr None
           | Some libc_path \<Rightarrow>
               (case re_findall_version libc_path of
                  [] \<Rightarrow> Inr None
                | ver0 # _ \<Rightarrow>
                    (case int_tuple (str_split_sep CHR ''.'' [] ver0) of
                       Inl e \<Rightarrow> Inl e
                     | Inr t \<Rightarrow> Inr (Some t)))))"

text \<open>
  The inner \<^verbatim>\<open>try\<close> of \<^verbatim>\<open>check_ggui_availability\<close>: the pip version check, whose
  handler catches \<^verbatim>\<open>ImportError\<close> only.
\<close>

definition pip_check :: "error + string \<Rightarrow> error + unit" where
  "pip_check pip =
     (case (case pip of
              Inl e \<Rightarrow> Inl e
            | Inr version \<Rightarrow>
                (case int_tuple (str_split_sep CHR ''.'' [] version) of
                   Inl e \<Rightarrow> Inl e
                 | Inr ver \<Rightarrow>
                     if tuple_less ver [20, 3, 0]
                     then Inl (GGUINotAvailableException
                       (''GGUI is not available since you have installed a restricted version of taichi. '' @
                        ''Your pip (version '' @ version @ '') is outdated (20.3.0 or later required), '' @
                        ''try upgrading pip and install taichi again.''))
                     else Inr ())) of
        Inl ImportError \<Rightarrow> Inr ()
      | r \<Rightarrow> r)"

text \<open>The body of the outer \<^verbatim>\<open>try\<close>: the attempt to identify the reason.\<close>

definition diagnose :: "environment \<Rightarrow> error + unit" where
  "diagnose env =
     (case import_taichi env of
        Some e \<Rightarrow> Inl e
      | None \<Rightarrow>
          (let wheel_tag = try_get_wheel_tag (wheel_tag_lookup env) in
           if platform_system env = ''Linux'' \<and>
              (case wheel_tag of None \<Rightarrow> False
               | Some tag \<Rightarrow> tag \<noteq> [] \<and> str_in ''manylinux2014'' tag)
           then
             (case try_get_loaded_libc_version (platform_system env) (proc_self_maps env) of
                Inl e \<Rightarrow> Inl e
              | Inr libc_ver \<Rightarrow>
                  if (case libc_ver of None \<Rightarrow> False
                      | Some v \<Rightarrow> v \<noteq> [] \<and> tuple_less v [2, 27])
                  then Inl (GGUINotAvailableException
                    (''GGUI is not available since you have installed a restricted version of taichi. '' @
                     ''Your OS is outdated, try upgrading to a recent one (e.g. Ubuntu 18.04 or later) if possible.''))
                  else
                    (case pip_check (import_pip env) of
                       Inl e \<Rightarrow> Inl e
                     | Inr u \<Rightarrow> Inl (GGUINotAvailableException
                         ''GGUI is not available since you have installed a restricted version of taichi.'')))
           else Inr ()))"

text \<open>
  \<^verbatim>\<open>check_ggui_availability\<close>: \<open>Inr ()\<close> is the plain \<^verbatim>\<open>return\<close>. The first handler
  re-raises a \<^verbatim>\<open>GGUINotAvailableException\<close>, the second swallows every other
  \<^verbatim>\<open>Exception\<close>, and the last statement raises the generic one.
\<close>

definition check_ggui_availability :: "environment \<Rightarrow> error + unit" where
  "check_ggui_availability env =
     (if GGUI_AVAILABLE env then Inr ()
      else (case diagnose env of
              Inl (GGUINotAvailableException msg) \<Rightarrow> Inl (GGUINotAvailableException msg)
            | _ \<Rightarrow> Inl (GGUINotAvailableException ''GGUI is not available.'')))"


section \<open>The layout indexer that tests/python/test_indices.py exercises\<close>

text \<open>
  The storage tree of a field is its chain of axis declarations, from the outermost level
  to the innermost: pairs of a virtual axis id and an extent. Axis \<^verbatim>\<open>ti.i\<close> is 0, \<^verbatim>\<open>ti.j\<close>
  is 1. The two fields of \<^verbatim>\<open>test_indices\<close>: \<^verbatim>\<open>a\<close> of shape (128, 32, 8), and \<^verbatim>\<open>b\<close>, placed
  by \<^verbatim>\<open>ti.root.dense(ti.j, 32).dense(ti.i, 16)\<close>.
\<close>

definition field_a :: "(nat \<times> nat) list" where
  "field_a = [(0, 128), (1, 32), (2, 8)]"

definition field_b :: "(nat \<times> nat) list" where
  "field_b = [(1, 32), (0, 16)]"

text \<open>
  Modelled from the spec: the element types (of which the test names these three) and
  their byte sizes; an element of a field of 32-bit floats takes 4 bytes.
\<close>

datatype DataType = f32 | i32 | u64

definition data_type_size :: "DataType \<Rightarrow> nat" where
  "data_type_size dt = (case dt of f32 \<Rightarrow> 4 | i32 \<Rightarrow> 4 | u64 \<Rightarrow> 8)"

text \<open>
  Modelled from the spec: \<^verbatim>\<open>_physical_index_position\<close>, which the native runtime and the
  language front end implement; the test only calls it. The spec gives its value on the
  two fields of the test, as the test asserts them: {0: 0, 1: 1, 2: 2} on \<^verbatim>\<open>a\<close> and
  {0: 0, 1: 1} on \<^verbatim>\<open>b\<close>, although \<^verbatim>\<open>b\<close> declares axis 1 outside axis 0; and it says that
  two fields declared with the same axes have the same mapping whatever their extents. The
  mapping numbers the declared axes in ascending order of their ids: entry \<open>k\<close> is the
  \<open>k\<close>-th smallest declared axis id. It does not depend on the nesting order, which the
  next definition records.
\<close>

definition physical_index_position :: "(nat \<times> nat) list \<Rightarrow> nat \<rightharpoonup> nat" where
  "physical_index_position chain =
     (let axes = sort (remdups (map fst chain)) in map_of (zip [0..<length axes] axes))"

text \<open>
  Modelled from the spec: the physical nesting depth of a virtual axis (0 is the
  outermost), fixed by the order in which the axes were declared when the storage tree
  was built; the native runtime keeps it. An axis declared at several levels has the depth
  of its outermost declaration.
\<close>

definition nesting_depth :: "(nat \<times> nat) list \<Rightarrow> nat \<rightharpoonup> nat" where
  "nesting_depth chain = map_of (zip (map fst chain) [0..<length chain])"

text \<open>
  Modelled from the spec: the address computation behind \<^verbatim>\<open>ti.get_addr\<close>, which belongs to
  the native runtime. The spec's words: the virtual indices (one per virtual axis, the
  index of axis \<open>a\<close> at position \<open>a\<close>) are converted to physical nesting order, then a
  row-major offset in physical order is computed over the nested extents and scaled by
  the element's byte size. First the conversion: the index of axis \<open>a\<close> goes to the
  nesting depth of \<open>a\<close>.
\<close>

definition physical_indices :: "(nat \<times> nat) list \<Rightarrow> nat list \<Rightarrow> nat list" where
  "physical_indices chain indices =
     fold (\<lambda>a p. case nesting_depth chain a of
                    Some d \<Rightarrow> p[d := indices ! a]
                  | None \<Rightarrow> p)
          [0..<length indices] (replicate (length chain) 0)"

text \<open>
  Modelled from the spec: the row-major offset of physical indices \<open>p\<close> under the nested
  extents, outermost first.
\<close>

definition row_major_offset :: "nat list \<Rightarrow> nat list \<Rightarrow> nat" where
  "row_major_offset extents p = foldl (\<lambda>acc (e, i). acc * e + i) 0 (zip extents p)"

text \<open>
  Modelled from the spec: \<^verbatim>\<open>address(indices)\<close>, the byte offset of an element.
\<close>

definition address :: "(nat \<times> nat) list \<Rightarrow> DataType \<Rightarrow> nat list \<Rightarrow> nat" where
  "address chain dt indices =
     data_type_size dt * row_major_offset (map snd chain) (physical_indices chain indices)"

text \<open>
  Modelled from the spec: the valid logical indices of a field, which the native runtime
  decides. Every declared axis has an index, and it is below the extent of the axis.
\<close>

definition valid_index :: "(nat \<times> nat) list \<Rightarrow> nat list \<Rightarrow> bool" where
  "valid_index chain indices = (\<forall>(a, e) \<in> set chain. a < length indices \<and> indices ! a < e)"

text \<open>
  Modelled from the spec: the storage region of a field, which the native runtime
  allocates. It holds one cell per element, the cell of an index being its row-major offset.
\<close>

definition num_cells :: "(nat \<times> nat) list \<Rightarrow> nat" where
  "num_cells chain = prod_list (map snd chain)"

text \<open>
  Modelled from the spec: the element accesses of a kernel, \<^verbatim>\<open>b[i, j] = v\<close> and \<^verbatim>\<open>b[i, j]\<close>,
  which the native runtime executes. An access at an invalid index or outside the region
  has no result.
\<close>

definition field_write ::
  "(nat \<times> nat) list \<Rightarrow> 'v list \<Rightarrow> nat list \<Rightarrow> 'v \<Rightarrow> 'v list option" where
  "field_write chain cells indices v =
     (let k = row_major_offset (map snd chain) (physical_indices chain indices) in
      if valid_index chain indices \<and> k < length cells then Some (cells[k := v]) else None)"

text \<open>Modelled from the spec: the read access \<^verbatim>\<open>b[i, j]\<close>, as above.\<close>

definition field_read :: "(nat \<times> nat) list \<Rightarrow> 'v list \<Rightarrow> nat list \<Rightarrow> 'v option" where
  "field_read chain cells indices =
     (let k = row_major_offset (map snd chain) (physical_indices chain indices) in
      if valid_index chain indices \<and> k < length cells then Some (cells ! k) else None)"


section \<open>Properties of the field descriptor\<close>

text \<open>
  C5. Called with \<^verbatim>\<open>None\<close>, \<^verbatim>\<open>get_field_info\<close> raises nothing and returns the freshly
  constructed descriptor with \<open>valid\<close> set to false and no other attribute assigned,
  whatever the active backend is.
\<close>

theorem get_field_info_null:
  "get_field_info info0 arch None = Inr (info0\<lparr>valid := False\<rparr>)"
  by (simp add: get_field_info_def)

text \<open>
  C6. Called with a field while the active backend is none of CUDA, x64, ARM64 and Vulkan,
  \<^verbatim>\<open>get_field_info\<close> raises the unsupported-backend exception: the caller gets the
  exception and no descriptor, so there is no retry and no default tag.
\<close>

theorem get_field_info_unsupported_backend:
  assumes "arch \<notin> {cuda, x64, arm64, vulkan}"
  shows "get_field_info info0 arch (Some field) = Inl (Exception ''unsupported taichi backend'')"
  using assms by (simp add: get_field_info_def set_field_source_def)

theorem get_field_info_unsupported_backend_witness:
  "get_field_info
     \<lparr>valid = False, field_source = TaichiCuda, shape = [], dtype = ''f32'', snode = 0::nat,
      field_type = Scalar, matrix_rows = 0, matrix_cols = 0\<rparr>
     (other_arch ''metal'')
     (Some \<lparr>field_shape = [16, 16], field_dtype = ''f32'', field_snode_ptr = 7, field_n_m = None\<rparr>)
   = Inl (Exception ''unsupported taichi backend'')"
  by (rule get_field_info_unsupported_backend) simp

text \<open>
  C7. For a field, a descriptor is returned under each of the four known backends, and the
  source tag of every returned descriptor is one of CUDA, x64 and Vulkan: CUDA under the
  CUDA backend, x64 under the x64 backend and also under the ARM64 backend, Vulkan under
  the Vulkan backend.
\<close>

theorem get_field_info_field_source:
  "(arch \<in> {cuda, x64, arm64, vulkan} \<longrightarrow>
      (\<exists>info. get_field_info info0 arch (Some field) = Inr info)) \<and>
   (\<forall>info. get_field_info info0 arch (Some field) = Inr info \<longrightarrow>
      field_source info \<in> {TaichiCuda, TaichiX64, TaichiVulkan} \<and>
      (arch = cuda \<longrightarrow> field_source info = TaichiCuda) \<and>
      (arch = x64 \<longrightarrow> field_source info = TaichiX64) \<and>
      (arch = arm64 \<longrightarrow> field_source info = TaichiX64) \<and>
      (arch = vulkan \<longrightarrow> field_source info = TaichiVulkan))"
proof (intro conjI allI impI)
  assume "arch \<in> {cuda, x64, arm64, vulkan}"
  then show "\<exists>info. get_field_info info0 arch (Some field) = Inr info"
    by (auto simp: get_field_info_def set_field_source_def)
next
  fix info
  assume h: "get_field_info info0 arch (Some field) = Inr info"
  then obtain info1 where src: "set_field_source arch (info0\<lparr>valid := True\<rparr>) = Inr info1"
    and info: "info = set_field_type field
                 (info1\<lparr>shape := map (\<lambda>n. n) (field_shape field), dtype := field_dtype field,
                        snode := field_snode_ptr field\<rparr>)"
    by (auto simp: get_field_info_def split: sum.splits)
  have keep: "field_source info = field_source info1"
    by (simp add: info set_field_type_def split: option.splits)
  show "field_source info \<in> {TaichiCuda, TaichiX64, TaichiVulkan}"
    by (cases "field_source info") simp_all
  { assume "arch = cuda"
    with src keep show "field_source info = TaichiCuda"
      by (auto simp: set_field_source_def) }
  { assume "arch = x64"
    with src keep show "field_source info = TaichiX64"
      by (auto simp: set_field_source_def) }
  { assume "arch = arm64"
    with src keep show "field_source info = TaichiX64"
      by (auto simp: set_field_source_def) }
  { assume "arch = vulkan"
    with src keep show "field_source info = TaichiVulkan"
      by (auto simp: set_field_source_def) }
qed

theorem get_field_info_field_source_witness:
  "\<exists>info. get_field_info
     \<lparr>valid = False, field_source = TaichiCuda, shape = [], dtype = ''f32'', snode = 0::nat,
      field_type = Scalar, matrix_rows = 0, matrix_cols = 0\<rparr>
     arm64
     (Some \<lparr>field_shape = [16, 16], field_dtype = ''f32'', field_snode_ptr = 7, field_n_m = None\<rparr>)
     = Inr info \<and> field_source info = TaichiX64"
  using get_field_info_field_source
    [of arm64 "\<lparr>valid = False, field_source = TaichiCuda, shape = [], dtype = ''f32'', snode = 0::nat,
      field_type = Scalar, matrix_rows = 0, matrix_cols = 0\<rparr>"
      "\<lparr>field_shape = [16, 16], field_dtype = ''f32'', field_snode_ptr = 7, field_n_m = None\<rparr>"]
  by blast

text \<open>
  C8. For a field, the returned descriptor has kind \<open>Matrix\<close> exactly when the field has
  the row and column counts, and then carries those counts; otherwise it has kind
  \<open>Scalar\<close> and both counts are 1.
\<close>

theorem get_field_info_field_type:
  assumes "get_field_info info0 arch (Some field) = Inr info"
  shows "(field_type info = Matrix \<longleftrightarrow> hasattr_n field) \<and>
         (case field_n_m field of
            Some (n, m) \<Rightarrow>
              field_type info = Matrix \<and> matrix_rows info = n \<and> matrix_cols info = m
          | None \<Rightarrow>
              field_type info = Scalar \<and> matrix_rows info = 1 \<and> matrix_cols info = 1)"
  using assms
  by (auto simp: get_field_info_def set_field_type_def hasattr_n_def split: sum.splits option.splits)

theorem get_field_info_field_type_witness:
  "\<exists>info. get_field_info
     \<lparr>valid = False, field_source = TaichiCuda, shape = [], dtype = ''f32'', snode = 0::nat,
      field_type = Scalar, matrix_rows = 0, matrix_cols = 0\<rparr>
     vulkan
     (Some \<lparr>field_shape = [16, 16], field_dtype = ''f32'', field_snode_ptr = 7,
            field_n_m = Some (3, 2)\<rparr>)
     = Inr info \<and> field_type info = Matrix \<and> matrix_rows info = 3 \<and> matrix_cols info = 2"
proof -
  let ?i0 = "\<lparr>valid = False, field_source = TaichiCuda, shape = [], dtype = ''f32'', snode = 0::nat,
      field_type = Scalar, matrix_rows = 0, matrix_cols = 0\<rparr>"
  let ?f = "\<lparr>field_shape = [16, 16], field_dtype = ''f32'', field_snode_ptr = 7::nat,
            field_n_m = Some (3, 2)\<rparr>"
  obtain info where h: "get_field_info ?i0 vulkan (Some ?f) = Inr info"
    by (simp add: get_field_info_def set_field_source_def)
  from get_field_info_field_type [OF h] h show ?thesis by simp
qed






section \<open>Properties of the availability check\<close>

lemma diagnose_bad_pip_version:
  "diagnose \<lparr>GGUI_AVAILABLE = False, import_taichi = None,
      wheel_tag_lookup = Inr (Some ''cp38-cp38-manylinux2014_x86_64''),
      platform_system = ''Linux'',
      proc_self_maps = Inr ''7f00 r-xp /lib/libc-2.31.so'',
      import_pip = Inr ''20.3b1''\<rparr> = Inl ValueError"
  by code_simp

text \<open>
  C10. \<^verbatim>\<open>check_ggui_availability\<close> returns exactly when the flag \<^verbatim>\<open>GGUI_AVAILABLE\<close> is
  true. When the flag is false it raises a \<^verbatim>\<open>GGUINotAvailableException\<close>; no other
  exception leaves it; and when the diagnosis raises any other exception, that one is
  dropped and the generic \<^verbatim>\<open>GGUINotAvailableException\<close> is raised in its place.
\<close>

theorem check_ggui_availability_raises:
  "((\<exists>u. check_ggui_availability env = Inr u) \<longleftrightarrow> GGUI_AVAILABLE env) \<and>
   (\<not> GGUI_AVAILABLE env \<longrightarrow>
      (\<exists>msg. check_ggui_availability env = Inl (GGUINotAvailableException msg))) \<and>
   (\<forall>e. check_ggui_availability env = Inl e \<longrightarrow> (\<exists>msg. e = GGUINotAvailableException msg)) \<and>
   (\<forall>e. \<not> GGUI_AVAILABLE env \<and> diagnose env = Inl e \<and>
        (\<forall>msg. e \<noteq> GGUINotAvailableException msg) \<longrightarrow>
        check_ggui_availability env = Inl (GGUINotAvailableException ''GGUI is not available.''))"
  by (auto simp: check_ggui_availability_def split: sum.splits error.splits)

theorem check_ggui_availability_raises_witness:
  "check_ggui_availability \<lparr>GGUI_AVAILABLE = False, import_taichi = None,
      wheel_tag_lookup = Inr (Some ''cp38-cp38-manylinux2014_x86_64''),
      platform_system = ''Linux'',
      proc_self_maps = Inr ''7f00 r-xp /lib/libc-2.31.so'',
      import_pip = Inr ''20.3b1''\<rparr>
   = Inl (GGUINotAvailableException ''GGUI is not available.'')"
  using check_ggui_availability_raises
    [of "\<lparr>GGUI_AVAILABLE = False, import_taichi = None,
      wheel_tag_lookup = Inr (Some ''cp38-cp38-manylinux2014_x86_64''),
      platform_system = ''Linux'',
      proc_self_maps = Inr ''7f00 r-xp /lib/libc-2.31.so'',
      import_pip = Inr ''20.3b1''\<rparr>"]
    diagnose_bad_pip_version
  by simp


section \<open>Properties of the layout indexer\<close>

subsection \<open>The mapping and the physical indices\<close>

lemma nesting_depth_nth:
  "distinct (map fst chain) \<Longrightarrow> d < length chain \<Longrightarrow>
   nesting_depth chain (fst (chain ! d)) = Some d"
  unfolding nesting_depth_def
  by (rule map_of_is_SomeI) (auto simp: in_set_zip intro!: exI[of _ d])

lemma nesting_depth_SomeD:
  "nesting_depth chain a = Some d \<Longrightarrow> d < length chain \<and> fst (chain ! d) = a"
  unfolding nesting_depth_def
  by (auto dest!: map_of_SomeD simp: in_set_zip)

lemma scatter_length:
  "length (fold (\<lambda>a p. case nesting_depth chain a of
                    Some d \<Rightarrow> p[d := indices ! a]
                  | None \<Rightarrow> p) as p0) = length p0"
  by (induction as arbitrary: p0) (auto split: option.splits)

lemma scatter_nth:
  assumes "distinct (map fst chain)" "d < length chain" "length p0 = length chain"
  shows "fold (\<lambda>a p. case nesting_depth chain a of
                    Some d \<Rightarrow> p[d := indices ! a]
                  | None \<Rightarrow> p) [0..<n] p0 ! d =
         (if fst (chain ! d) < n then indices ! fst (chain ! d) else p0 ! d)"
proof (induction n)
  case 0
  then show ?case by simp
next
  case (Suc n)
  let ?f = "(\<lambda>a p. case nesting_depth chain a of
                    Some d \<Rightarrow> p[d := indices ! a]
                  | None \<Rightarrow> p)"
  let ?p = "fold ?f [0..<n] p0"
  have len: "length ?p = length chain" using assms(3) by (simp add: scatter_length)
  show ?case
  proof (cases "nesting_depth chain n")
    case None
    with nesting_depth_nth[OF assms(1,2)] have "fst (chain ! d) \<noteq> n" by auto
    with None Suc show ?thesis by (auto simp: less_Suc_eq)
  next
    case (Some d')
    from nesting_depth_SomeD[OF Some] have d': "d' < length chain" "fst (chain ! d') = n" by auto
    show ?thesis
    proof (cases "d' = d")
      case True
      with Some d' len assms(2) show ?thesis by simp
    next
      case False
      have "fst (chain ! d) \<noteq> n"
      proof
        assume "fst (chain ! d) = n"
        with nesting_depth_nth[OF assms(1,2)] Some have "d = d'" by simp
        with False show False by simp
      qed
      with Some False Suc show ?thesis by (auto simp: less_Suc_eq)
    qed
  qed
qed

lemma physical_indices_eq:
  assumes "distinct (map fst chain)" "\<forall>(a, e) \<in> set chain. a < length indices"
  shows "physical_indices chain indices = map (\<lambda>(a, e). indices ! a) chain"
proof (rule nth_equalityI)
  show "length (physical_indices chain indices) = length (map (\<lambda>(a, e). indices ! a) chain)"
    by (simp add: physical_indices_def scatter_length)
next
  fix d assume "d < length (physical_indices chain indices)"
  then have d: "d < length chain" by (simp add: physical_indices_def scatter_length)
  then have "chain ! d \<in> set chain" by simp
  with assms(2) have "fst (chain ! d) < length indices" by (auto simp: case_prod_beta)
  with scatter_nth[OF assms(1) d, of "replicate (length chain) 0" indices "length indices"] d
  show "physical_indices chain indices ! d = map (\<lambda>(a, e). indices ! a) chain ! d"
    by (simp add: physical_indices_def case_prod_beta)
qed


lemma row_major_offset_chain:
  "row_major_offset (map snd chain) (map (\<lambda>(a, e). indices ! a) chain) =
     foldl (\<lambda>acc (a, e). acc * e + indices ! a) 0 chain"
proof -
  have "foldl (\<lambda>acc (e, i). acc * e + i) acc0
          (zip (map snd chain) (map (\<lambda>(a, e). indices ! a) chain)) =
        foldl (\<lambda>acc (a, e). acc * e + indices ! a) acc0 chain" for acc0
    by (induction chain arbitrary: acc0) (auto simp: case_prod_beta)
  then show ?thesis by (simp add: row_major_offset_def)
qed

lemma offset_cong:
  "\<forall>(a, e) \<in> set chain. xs ! a = ys ! a \<Longrightarrow>
   foldl (\<lambda>acc (a, e). acc * e + xs ! a) acc0 chain =
   foldl (\<lambda>acc (a, e). acc * e + ys ! a) acc0 chain"
  by (induction chain arbitrary: acc0) (auto simp: case_prod_beta)

lemma offset_bound:
  "\<forall>(a, e) \<in> set chain. indices ! a < e \<Longrightarrow>
   foldl (\<lambda>acc (a, e). acc * e + indices ! a) (acc0::nat) chain < (acc0 + 1) * prod_list (map snd chain)"
proof (induction chain arbitrary: acc0)
  case Nil
  then show ?case by simp
next
  case (Cons x chain)
  obtain a e where x: "x = (a, e)" by (cases x)
  from Cons.prems x have i: "indices ! a < e" by simp
  from Cons.prems have "\<forall>(a, e) \<in> set chain. indices ! a < e" by simp
  from Cons.IH[OF this, of "acc0 * e + indices ! a"]
  have "foldl (\<lambda>acc (a, e). acc * e + indices ! a) (acc0 * e + indices ! a) chain
          < (acc0 * e + indices ! a + 1) * prod_list (map snd chain)" .
  also have "\<dots> \<le> ((acc0 + 1) * e) * prod_list (map snd chain)"
    using i by (intro mult_le_mono1) (simp add: algebra_simps)
  finally show ?case by (simp add: x algebra_simps)
qed


lemma cell_offset_chain:
  assumes "distinct (map fst chain)" "\<forall>(a, e) \<in> set chain. a < length indices"
  shows "row_major_offset (map snd chain) (physical_indices chain indices) =
         foldl (\<lambda>acc (a, e). acc * e + indices ! a) 0 chain"
  by (simp only: physical_indices_eq[OF assms] row_major_offset_chain)

lemma cell_offset_in_region:
  assumes "distinct (map fst chain)" "valid_index chain indices"
  shows "row_major_offset (map snd chain) (physical_indices chain indices) < num_cells chain"
proof -
  from assms(2) have 1: "\<forall>(a, e) \<in> set chain. a < length indices"
    and 2: "\<forall>(a, e) \<in> set chain. indices ! a < e"
    by (auto simp: valid_index_def)
  from offset_bound[OF 2, of 0] show ?thesis
    by (simp add: cell_offset_chain[OF assms(1) 1] num_cells_def)
qed

lemma physical_index_position_apply:
  "physical_index_position chain k =
     (let axes = sort (remdups (map fst chain)) in
      if k < length axes then Some (axes ! k) else None)"
proof -
  have "map_of (zip [0..<length xs] xs) k = (if k < length xs then Some (xs ! k) else None)"
    for xs :: "nat list"
  proof (cases "k < length xs")
    case True
    have "map_of (zip [0..<length xs] xs) ([0..<length xs] ! k) = Some (xs ! k)"
      by (rule map_of_zip_nth) (use True in simp_all)
    with True show ?thesis by simp
  next
    case False
    then have "k \<notin> set [0..<length xs]" by simp
    then have "map_of (zip [0..<length xs] xs) k = None"
      by (simp add: map_of_zip_is_None)
    with False show ?thesis by simp
  qed
  then show ?thesis by (simp only: physical_index_position_def Let_def)
qed

lemma physical_index_position_set:
  "set (map fst c1) = set (map fst c2) \<Longrightarrow>
   physical_index_position c1 = physical_index_position c2"
proof -
  assume "set (map fst c1) = set (map fst c2)"
  then have "sort (remdups (map fst c1)) = sort (remdups (map fst c2))"
    by (metis sorted_list_of_set_sort_remdups)
  then show ?thesis by (simp add: physical_index_position_def)
qed

lemma nesting_depth_field_b:
  "nesting_depth field_b 1 = Some 0" "nesting_depth field_b 0 = Some 1"
  by (simp_all add: nesting_depth_def field_b_def upt_rec)

text \<open>
  C3. When the axes are declared in the order 0, 1, 2, ..., every virtual axis is mapped to
  itself, its declaration position. For the field of shape (128, 32, 8) the mapping is
  {0: 0, 1: 1, 2: 2}.
\<close>

theorem physical_index_position_declared_in_order:
  assumes "map fst chain = [0..<length chain]"
  shows "physical_index_position chain a = (if a < length chain then Some a else None)"
proof -
  have "sort (remdups (map fst chain)) = [0..<length chain]"
    by (simp add: assms sort_upt)
  then show ?thesis by (simp add: physical_index_position_apply)
qed

theorem physical_index_position_declared_in_order_witness:
  "physical_index_position field_a = [0 \<mapsto> 0, 1 \<mapsto> 1, 2 \<mapsto> 2]"
proof (rule ext)
  fix a :: nat
  have h: "map fst field_a = [0..<length field_a]"
    by (simp add: field_a_def upt_rec)
  have len: "length field_a = 3" by (simp add: field_a_def)
  from physical_index_position_declared_in_order [OF h, of a]
  show "physical_index_position field_a a = [0 \<mapsto> 0, 1 \<mapsto> 1, 2 \<mapsto> 2] a"
    unfolding len by (simp add: numeral_3_eq_3 less_Suc_eq)
qed

text \<open>
  C1. For the field whose storage tree declares axis j (extent 32) outside axis i
  (extent 16), the mapping is {0: 0, 1: 1}. It is the mapping of the tree that declares i
  outside j as well: it follows the numeric order of the axis ids, not the declaration
  order. In the storage tree axis j is at the outer nesting depth 0 and axis i at the
  inner depth 1, so it is not the case that i is at the outer position and j at the inner
  one.
\<close>

theorem physical_index_position_field_b:
  "physical_index_position field_b = [0 \<mapsto> 0, 1 \<mapsto> 1] \<and>
   physical_index_position [(0, 16), (1, 32)] = physical_index_position field_b \<and>
   nesting_depth field_b 1 = Some 0 \<and> nesting_depth field_b 0 = Some 1"
proof -
  have "physical_index_position field_b k = [0 \<mapsto> 0, 1 \<mapsto> 1] k" for k
    by (simp add: physical_index_position_apply field_b_def less_Suc_eq numeral_2_eq_2)
  then have 1: "physical_index_position field_b = [0 \<mapsto> 0, 1 \<mapsto> 1]" by (rule ext)
  have 2: "physical_index_position [(0, 16), (1, 32)] = physical_index_position field_b"
    by (rule physical_index_position_set) (auto simp: field_b_def)
  from 1 2 nesting_depth_field_b show ?thesis by simp
qed

theorem physical_index_position_field_b_counterexample:
  "\<not> (physical_index_position field_b = [0 \<mapsto> 0, 1 \<mapsto> 1] \<and>
      nesting_depth field_b 0 = Some 0 \<and> nesting_depth field_b 1 = Some 1)"
  by (simp add: nesting_depth_def field_b_def upt_rec)

text \<open>
  C2. Two index tuples that differ by 1 at the axis declared innermost, and agree elsewhere,
  have addresses that differ by the byte size of one element: 4 bytes for a field of
  32-bit floats, as between (0, 1) and (1, 1) on field \<^verbatim>\<open>b\<close>.
\<close>

theorem address_innermost_step:
  assumes "distinct (map fst chain)" "\<forall>(a, e) \<in> set chain. a < length indices"
    and "chain \<noteq> []" "fst (last chain) = a"
  shows "address chain dt (indices[a := indices ! a + 1]) =
         address chain dt indices + data_type_size dt"
proof -
  obtain c e where chain: "chain = c @ [(a, e)]"
    using assms(3,4) by (cases chain rule: rev_cases) (auto simp: prod_eq_iff)
  let ?ix = "indices[a := indices ! a + 1]"
  have a: "a < length indices" using assms(2) chain by simp
  have notin: "\<forall>(a', e') \<in> set c. ?ix ! a' = indices ! a'"
  proof (clarify)
    fix a' e' assume "(a', e') \<in> set c"
    then have "a' \<in> fst ` set c" by force
    moreover have "a \<notin> fst ` set c" using assms(1) chain by simp
    ultimately have "a' \<noteq> a" by blast
    then show "?ix ! a' = indices ! a'" by simp
  qed
  have 2: "\<forall>(a, e) \<in> set chain. a < length ?ix" using assms(2) by simp
  have "row_major_offset (map snd chain) (physical_indices chain ?ix) =
        foldl (\<lambda>acc (a, e). acc * e + ?ix ! a) 0 chain"
    by (rule cell_offset_chain[OF assms(1) 2])
  also have "\<dots> = foldl (\<lambda>acc (a, e). acc * e + ?ix ! a) 0 c * e + ?ix ! a"
    by (simp add: chain)
  also have "\<dots> = foldl (\<lambda>acc (a, e). acc * e + indices ! a) 0 c * e + (indices ! a + 1)"
  proof -
    have ixa: "?ix ! a = indices ! a + 1" using a by simp
    show ?thesis by (simp only: offset_cong[OF notin] ixa)
  qed
  also have "\<dots> = foldl (\<lambda>acc (a, e). acc * e + indices ! a) 0 chain + 1"
    by (simp add: chain)
  also have "\<dots> = row_major_offset (map snd chain) (physical_indices chain indices) + 1"
    by (simp only: cell_offset_chain[OF assms(1,2)])
  finally show ?thesis by (simp add: address_def)
qed

theorem address_innermost_step_witness:
  "address field_b f32 [1, 1] = address field_b f32 [0, 1] + 4"
  using address_innermost_step [of field_b "[0, 1]" 0 f32]
  by (simp add: field_b_def data_type_size_def)

text \<open>
  C4. On a storage region of the field's size, writing a value at a valid logical index
  succeeds, and reading at the same index afterwards yields that value, whatever the
  declared order of the axes is.
\<close>

theorem field_write_read_roundtrip:
  assumes "distinct (map fst chain)" "valid_index chain indices"
    and "length cells = num_cells chain"
  shows "\<exists>cells'. field_write chain cells indices v = Some cells' \<and>
                  field_read chain cells' indices = Some v"
proof -
  let ?k = "row_major_offset (map snd chain) (physical_indices chain indices)"
  have k: "?k < length cells"
    using cell_offset_in_region[OF assms(1,2)] assms(3) by simp
  have w: "field_write chain cells indices v = Some (cells[?k := v])"
    using assms(2) k by (simp add: field_write_def)
  have r: "field_read chain (cells[?k := v]) indices = Some v"
    using assms(2) k by (simp add: field_read_def)
  from w r show ?thesis by blast
qed

theorem field_write_read_roundtrip_witness:
  "\<exists>cells'. field_write field_b (replicate (num_cells field_b) (0::int)) [3, 5] 35 = Some cells' \<and>
            field_read field_b cells' [3, 5] = Some 35"
  by (rule field_write_read_roundtrip) (simp_all add: field_b_def valid_index_def)

end
